theory Spec2Isabelle
  imports Complex_Main
begin

section \<open>Data model\<close>

text \<open>
  The notebook works on flat state vectors of Python floats (numpy arrays raveled into
  lists). A state vector is modelled as a list of reals: arithmetic is exact, the rounding
  of 64-bit floats is not modelled. The final \<open>reshape(-1, 1)\<close> only changes the shape
  of the array, not its entries, and is not modelled either.

  Unpacking a vector of the wrong length raises \<open>ValueError\<close> in Python. A division
  whose divisor is zero is the outcome \<open>ZeroDivisionError\<close> of the model (Python raises
  it on plain numbers; numpy scalars give nan or inf with a warning instead).
\<close>

datatype error = ValueError | ZeroDivisionError

section \<open>Lorenz-63\<close>

text \<open>
  \<^verbatim>\<open>
  def lorenz_step(state, _, rho, sigma, beta):
      x, y, z = state  # Unpack the state vector
      return sigma * (y - x), x * (rho - z) - y, x * y - beta * z  # Derivatives
  \<close>
\<close>

definition lorenz_step ::
  "real list \<Rightarrow> 't \<Rightarrow> real \<Rightarrow> real \<Rightarrow> real \<Rightarrow> error + real \<times> real \<times> real" where
  "lorenz_step state t rho sigma beta =
     (case state of
        [x, y, z] \<Rightarrow> Inr (sigma * (y - x), x * (rho - z) - y, x * y - beta * z)
      | _ \<Rightarrow> Inl ValueError)"

text \<open>The global step size of the notebook: \<^verbatim>\<open>d = 0.01\<close>.\<close>

definition d :: real where
  "d = 0.01"

text \<open>
  \<^verbatim>\<open>
  def lorenz_evol_step(state):
      list(np.ravel(state))
      x, y, z, rho, sigma, beta = state  # Unpack the state vector
      rho, sigma, beta = list(map(lambda x : abs(x), [rho, sigma, beta]))
      dx, dy, dz = lorenz_step([x, y, z], "", rho, sigma, beta)
      return np.array([x + d * dx, y + d * dy, z + d * dz, rho, sigma, beta]).reshape(-1, 1)
  \<close>
  The names \<open>rho\<close>, \<open>sigma\<close>, \<open>beta\<close> are rebound to the absolute values before both
  the call of \<open>lorenz_step\<close> and the construction of the result.
\<close>

definition lorenz_evol_step :: "real list \<Rightarrow> error + real list" where
  "lorenz_evol_step state =
     (case state of
        [x, y, z, rho0, sigma0, beta0] \<Rightarrow>
          (let rho = \<bar>rho0\<bar>; sigma = \<bar>sigma0\<bar>; beta = \<bar>beta0\<bar> in
           case lorenz_step [x, y, z] (''''::string) rho sigma beta of
             Inl e \<Rightarrow> Inl e
           | Inr (dx, dy, dz) \<Rightarrow>
               Inr [x + d * dx, y + d * dy, z + d * dz, rho, sigma, beta])
      | _ \<Rightarrow> Inl ValueError)"

section \<open>SEIR\<close>

text \<open>
  \<^verbatim>\<open>
  def seir_step(state):
      state = list(np.ravel(state))
      state = list(map(lambda x : max(x, 0), state))
      S_old, E_old, I_old, R_old, D_old, alfa, beta, eps, gamma = state

      N = S_old + E_old + I_old + R_old
      D = D_old + alfa * I_old
      S = S_old - S_old * beta * I_old / N
      E = E_old + S_old * beta * I_old / N - eps * E_old
      I = I_old + eps * E_old - (alfa + gamma) * I_old
      R = R_old + gamma * I_old

      results = [S, E, I, R, D, alfa, beta, eps, gamma]
      return np.array(results).reshape(-1, 1)
  \<close>
  The source divides by \<open>N\<close> without any test; the model makes the zero divisor an
  explicit outcome, since \<open>x / 0 = 0\<close> in HOL. At \<open>N = 0\<close> the code raises
  \<open>ZeroDivisionError\<close> when S, E, I, R and beta are all negative (each is clamped to the
  plain integer 0), and otherwise returns an array with nan in S and E. The model has the
  one outcome \<open>Inl ZeroDivisionError\<close> for both: it records that the division by zero
  has been reached and does not follow the nan values any further.
\<close>

definition seir_step :: "real list \<Rightarrow> error + real list" where
  "seir_step state0 =
     (let state = map (\<lambda>x. max x 0) state0 in
      case state of
        [S_old, E_old, I_old, R_old, D_old, alfa, beta, eps, gamma] \<Rightarrow>
          (let N = S_old + E_old + I_old + R_old;
               D = D_old + alfa * I_old
           in if N = 0 then Inl ZeroDivisionError
              else
                (let S = S_old - S_old * beta * I_old / N;
                     E = E_old + S_old * beta * I_old / N - eps * E_old;
                     I = I_old + eps * E_old - (alfa + gamma) * I_old;
                     R = R_old + gamma * I_old
                 in Inr [S, E, I, R, D, alfa, beta, eps, gamma]))
      | _ \<Rightarrow> Inl ValueError)"

section \<open>Observation generator\<close>

text \<open>
  \<^verbatim>\<open>
  def prepare_obs(state, obs_operator, evolution_function, size=100):
      observations = []
      for i in range(size):
          observations.append(???)
          state = ???
      return observations
  \<close>
  The loop, its counter and the accumulator are the notebook's. \<open>range(size)\<close> runs
  \<open>size\<close> times, and not at all for a negative \<open>size\<close>. The default value of
  \<open>size\<close> is left to the caller: the model always takes the count.
\<close>

text \<open>
  Modelled from the spec: the two expressions that the notebook leaves open as an
  exercise (\<^verbatim>\<open>observations.append(???)\<close> and \<^verbatim>\<open>state = ???\<close>). The spec
  words them as "repeatedly observing the current state then advancing it": the
  observation operator applied to the current state is appended, and the evolution
  function applied to the current state becomes the next state.
\<close>

fun prepare_obs_loop ::
  "('s \<Rightarrow> 'o) \<Rightarrow> ('s \<Rightarrow> 's) \<Rightarrow> nat \<Rightarrow> 's \<Rightarrow> 'o list \<Rightarrow> 'o list" where
  "prepare_obs_loop obs_operator evolution_function 0 state observations = observations"
| "prepare_obs_loop obs_operator evolution_function (Suc k) state observations =
     prepare_obs_loop obs_operator evolution_function k
       (evolution_function state) (observations @ [obs_operator state])"

definition prepare_obs :: "'s \<Rightarrow> ('s \<Rightarrow> 'o) \<Rightarrow> ('s \<Rightarrow> 's) \<Rightarrow> int \<Rightarrow> 'o list" where
  "prepare_obs state obs_operator evolution_function sz =
     prepare_obs_loop obs_operator evolution_function (nat sz) state []"

section \<open>Unfolding lemmas\<close>

lemma lorenz_evol_step_unfold:
  "lorenz_evol_step [x, y, z, rho, sigma, beta] =
     Inr [x + d * (\<bar>sigma\<bar> * (y - x)), y + d * (x * (\<bar>rho\<bar> - z) - y),
          z + d * (x * y - \<bar>beta\<bar> * z), \<bar>rho\<bar>, \<bar>sigma\<bar>, \<bar>beta\<bar>]"
  by (simp add: lorenz_evol_step_def lorenz_step_def Let_def)

lemma seir_step_unfold:
  "seir_step [S, E, I, R, D, alfa, beta, eps, gamma] =
     (if max S 0 + max E 0 + max I 0 + max R 0 = 0 then Inl ZeroDivisionError
      else Inr
        [max S 0 - max S 0 * max beta 0 * max I 0 / (max S 0 + max E 0 + max I 0 + max R 0),
         max E 0 + max S 0 * max beta 0 * max I 0 / (max S 0 + max E 0 + max I 0 + max R 0)
           - max eps 0 * max E 0,
         max I 0 + max eps 0 * max E 0 - (max alfa 0 + max gamma 0) * max I 0,
         max R 0 + max gamma 0 * max I 0,
         max D 0 + max alfa 0 * max I 0,
         max alfa 0, max beta 0, max eps 0, max gamma 0])"
  by (simp add: seir_step_def Let_def)

lemma seir_step_nonneg_input:
  assumes "0 \<le> S" "0 \<le> E" "0 \<le> I" "0 \<le> R" "0 \<le> D"
    and "0 \<le> alfa" "0 \<le> beta" "0 \<le> eps" "0 \<le> gamma"
    and "0 < S + E + I + R"
  shows "seir_step [S, E, I, R, D, alfa, beta, eps, gamma] =
     Inr [S - S * beta * I / (S + E + I + R),
          E + S * beta * I / (S + E + I + R) - eps * E,
          I + eps * E - (alfa + gamma) * I,
          R + gamma * I,
          D + alfa * I,
          alfa, beta, eps, gamma]"
  using assms by (simp add: seir_step_unfold max_absorb1)

section \<open>The Lorenz evolution step\<close>

text \<open>
  C7: for every state \<open>[x, y, z, rho, sigma, beta]\<close> the three dynamic components returned
  by \<open>lorenz_evol_step\<close> are the forward-Euler update with step 0.01 of the Lorenz-63
  increments taken at the absolute values of the parameters.
\<close>

theorem lorenz_evol_step_euler:
  "map_sum id (take 3) (lorenz_evol_step [x, y, z, rho, sigma, beta]) =
     Inr [x + 0.01 * \<bar>sigma\<bar> * (y - x),
          y + 0.01 * (x * (\<bar>rho\<bar> - z) - y),
          z + 0.01 * (x * y - \<bar>beta\<bar> * z)]"
  by (simp add: lorenz_evol_step_unfold d_def)

text \<open>
  C2 as stated (the parameter components are returned as they were given) fails for a
  negative parameter: the step returns the rebound names, that is the absolute values.
  With \<open>rho = -28\<close> the returned parameter components are \<open>[28, 10, 8/3]\<close>.
\<close>

theorem lorenz_evol_step_params_changed:
  "lorenz_evol_step [1, 1, 1, - 28, 10, 8 / 3] = Inr [1, 63 / 50, 59 / 60, 28, 10, 8 / 3] \<and>
   map_sum id (drop 3) (lorenz_evol_step [1, 1, 1, - 28, 10, 8 / 3]) \<noteq>
     Inr (drop 3 [1, 1, 1, - 28, 10, 8 / 3])"
  by (simp add: lorenz_evol_step_unfold d_def)

text \<open>
  C2, amended: for every state \<open>[x, y, z, rho, sigma, beta]\<close> the parameter components
  returned by one application of \<open>lorenz_evol_step\<close> are the absolute values of the input
  parameter components; they equal the input parameter components whenever these are
  non-negative.
\<close>

theorem lorenz_evol_step_params_abs:
  "map_sum id (drop 3) (lorenz_evol_step [x, y, z, rho, sigma, beta]) =
     Inr [\<bar>rho\<bar>, \<bar>sigma\<bar>, \<bar>beta\<bar>] \<and>
   (0 \<le> rho \<and> 0 \<le> sigma \<and> 0 \<le> beta \<longrightarrow>
      map_sum id (drop 3) (lorenz_evol_step [x, y, z, rho, sigma, beta]) =
        Inr [rho, sigma, beta])"
  by (simp add: lorenz_evol_step_unfold)

theorem lorenz_evol_step_params_abs_witness:
  "map_sum id (drop 3) (lorenz_evol_step [1, 1, 1, - 28, 10, 8 / 3]) = Inr [28, 10, 8 / 3] \<and>
   map_sum id (drop 3) (lorenz_evol_step [1, 1, 1, 28, 10, 8 / 3]) = Inr [28, 10, 8 / 3]"
  using lorenz_evol_step_params_abs [of 1 1 1 "- 28" 10 "8 / 3"]
    lorenz_evol_step_params_abs [of 1 1 1 28 10 "8 / 3"]
  by simp

section \<open>One SEIR step\<close>

text \<open>
  C1 as stated (every compartment of the returned state is non-negative) fails for the
  susceptible compartment: with \<open>beta = 7\<close>, 1000 susceptible and 9000 infectious
  individuals the step returns \<open>S = -5300\<close>. The clamping is applied to the input of a
  step, not to its result.
\<close>

theorem seir_step_susceptible_negative:
  "seir_step [1000, 0, 9000, 0, 0, 0.001, 7, 0.05, 0.05] =
     Inr [- 5300, 6300, 8541, 450, 9, 0.001, 7, 0.05, 0.05] \<and> (- 5300 :: real) < 0"
  by (simp add: seir_step_unfold)

text \<open>
  C1, amended: for every input state whose compartments S, E, I, R, D are non-negative
  with \<open>S + E + I + R > 0\<close> and whose rate parameters lie in their documented bounds, one
  application of \<open>seir_step\<close> returns a state whose components E, I, R and D are
  non-negative. The component S is not among them: it can be negative.
\<close>

theorem seir_step_nonneg_compartments:
  assumes "0 \<le> S" "0 \<le> E" "0 \<le> I" "0 \<le> R" "0 \<le> D"
    and "0.001 \<le> alfa" "alfa \<le> 0.01" "0 \<le> beta" "beta \<le> 7"
    and "0.05 \<le> eps" "eps \<le> 0.5" "0.05 \<le> gamma" "gamma \<le> 0.5"
    and "0 < S + E + I + R"
  shows "\<exists>S' E' I' R' D'.
     seir_step [S, E, I, R, D, alfa, beta, eps, gamma] =
       Inr [S', E', I', R', D', alfa, beta, eps, gamma] \<and>
     0 \<le> E' \<and> 0 \<le> I' \<and> 0 \<le> R' \<and> 0 \<le> D'"
proof -
  let ?N = "S + E + I + R"
  have step: "seir_step [S, E, I, R, D, alfa, beta, eps, gamma] =
     Inr [S - S * beta * I / ?N, E + S * beta * I / ?N - eps * E,
          I + eps * E - (alfa + gamma) * I, R + gamma * I, D + alfa * I,
          alfa, beta, eps, gamma]"
    using assms by (intro seir_step_nonneg_input) simp_all
  have inf: "0 \<le> S * beta * I / ?N"
    using assms by simp
  have "eps * E \<le> 1 * E"
    using assms by (intro mult_right_mono) simp_all
  with inf have E': "0 \<le> E + S * beta * I / ?N - eps * E"
    by simp
  have "(alfa + gamma) * I \<le> 1 * I"
    using assms by (intro mult_right_mono) simp_all
  moreover have "0 \<le> eps * E"
    using assms by simp
  ultimately have I': "0 \<le> I + eps * E - (alfa + gamma) * I"
    by simp
  have R': "0 \<le> R + gamma * I"
    using assms by simp
  have D': "0 \<le> D + alfa * I"
    using assms by simp
  from step E' I' R' D' show ?thesis
    by blast
qed

theorem seir_step_nonneg_compartments_witness:
  "\<exists>S' E' I' R' D'.
     seir_step [990, 5, 4, 1, 0, 0.007, 2, 0.2, 0.14] =
       Inr [S', E', I', R', D', 0.007, 2, 0.2, 0.14] \<and>
     0 \<le> E' \<and> 0 \<le> I' \<and> 0 \<le> R' \<and> 0 \<le> D'"
  using seir_step_nonneg_compartments [of 990 5 4 1 0 "0.007" 2 "0.2" "0.14"]
  by simp

text \<open>
  C4 as stated (the division by \<open>N\<close> is guarded, no input reaches a division by zero)
  fails: \<open>seir_step\<close> has no test on \<open>N\<close>, and a state whose four alive compartments are
  zero divides by zero. So does a trial state whose alive compartments and \<open>beta\<close> are
  negative: all of them are clamped to the plain number 0, and Python raises on \<open>0 / 0\<close>.
\<close>

theorem seir_step_zero_population:
  "seir_step [0, 0, 0, 0, 0, 0.007, 2, 0.2, 0.14] = Inl ZeroDivisionError \<and>
   seir_step [- 1, - 1, - 1, - 1, 0, 0.007, - 1, 0.2, 0.14] = Inl ZeroDivisionError"
  by (simp add: seir_step_unfold)

text \<open>
  C4, amended: \<open>seir_step\<close> divides by \<open>N = S + E + I + R\<close> (taken after clamping) without a
  guard. The division by zero is reached exactly for the nine-component inputs whose
  S, E, I and R are all zero or negative; for every input with a positive S, E, I or R
  no division by zero is performed.
\<close>

theorem seir_step_zero_division_iff:
  "seir_step [S, E, I, R, D, alfa, beta, eps, gamma] = Inl ZeroDivisionError \<longleftrightarrow>
     S \<le> 0 \<and> E \<le> 0 \<and> I \<le> 0 \<and> R \<le> 0"
  by (auto simp add: seir_step_unfold max_def split: if_splits)

theorem seir_step_zero_division_iff_witness:
  "seir_step [40000000, 1, 0, 0, 0, 0.007, 2, 0.2, 0.14] \<noteq> Inl ZeroDivisionError \<and>
   seir_step [- 1, - 1, - 1, - 1, 0, 0.007, - 1, 0.2, 0.14] = Inl ZeroDivisionError"
  using seir_step_zero_division_iff [of 40000000 1 0 0 0 "0.007" 2 "0.2" "0.14"]
    seir_step_zero_division_iff [of "- 1" "- 1" "- 1" "- 1" 0 "0.007" "- 1" "0.2" "0.14"]
  by simp

text \<open>
  C10 as stated fails in its comparison with the Lorenz step: \<open>lorenz_evol_step\<close> does
  not use the absolute values as coefficients only, it also returns them. With the
  parameters \<open>-20, 10, -5\<close> the returned state carries \<open>20, 10, 5\<close>.
\<close>

theorem lorenz_evol_step_returns_abs:
  "lorenz_evol_step [1, 1, 1, - 20, 10, - 5] = Inr [1, 59 / 50, 24 / 25, 20, 10, 5]"
  by (simp add: lorenz_evol_step_unfold d_def)

text \<open>
  C10, amended: \<open>seir_step\<close> clamps every component of its input, the rate parameters
  alfa, beta, eps, gamma as well as the compartment counts, to zero via \<open>max(x, 0)\<close>
  before applying the update, so that a step on a state equals the step on the clamped
  state and the returned parameter components are the clamped ones: a negative trial
  parameter value is replaced by 0 in both the computation and the returned state. The
  Lorenz step likewise puts the absolute values of its parameters into the returned
  state, not only into the coefficients.
\<close>

theorem seir_step_clamps_all:
  "seir_step state = seir_step (map (\<lambda>x. max x 0) state) \<and>
   (max S 0 + max E 0 + max I 0 + max R 0 \<noteq> 0 \<longrightarrow>
      map_sum id (drop 5) (seir_step [S, E, I, R, D, alfa, beta, eps, gamma]) =
        Inr [max alfa 0, max beta 0, max eps 0, max gamma 0]) \<and>
   map_sum id (drop 3) (lorenz_evol_step [x, y, z, rho, sigma, beta']) =
     Inr [\<bar>rho\<bar>, \<bar>sigma\<bar>, \<bar>beta'\<bar>]"
proof (intro conjI)
  show "seir_step state = seir_step (map (\<lambda>x. max x 0) state)"
    by (simp add: seir_step_def o_def)
  show "max S 0 + max E 0 + max I 0 + max R 0 \<noteq> 0 \<longrightarrow>
      map_sum id (drop 5) (seir_step [S, E, I, R, D, alfa, beta, eps, gamma]) =
        Inr [max alfa 0, max beta 0, max eps 0, max gamma 0]"
    by (simp add: seir_step_unfold)
  show "map_sum id (drop 3) (lorenz_evol_step [x, y, z, rho, sigma, beta']) =
     Inr [\<bar>rho\<bar>, \<bar>sigma\<bar>, \<bar>beta'\<bar>]"
    by (simp add: lorenz_evol_step_unfold)
qed

theorem seir_step_clamps_all_witness:
  "seir_step [- 3, 5, 2, 3, - 1, - 0.5, 2, - 0.2, 0.1] =
     seir_step [0, 5, 2, 3, 0, 0, 2, 0, 0.1] \<and>
   map_sum id (drop 5) (seir_step [- 3, 5, 2, 3, - 1, - 0.5, 2, - 0.2, 0.1]) =
     Inr [0, 2, 0, 0.1] \<and>
   map_sum id (drop 3) (lorenz_evol_step [1, 1, 1, - 20, 10, - 5]) = Inr [20, 10, 5]"
proof -
  note clamp = seir_step_clamps_all [of "[- 3, 5, 2, 3, - 1, - 0.5, 2, - 0.2, 0.1]"
      "- 3" 5 2 3 "- 1" "- 0.5" 2 "- 0.2" "0.1" 1 1 1 "- 20" 10 "- 5"]
  from clamp [THEN conjunct1]
  have "seir_step [- 3, 5, 2, 3, - 1, - 0.5, 2, - 0.2, 0.1] =
     seir_step [0, 5, 2, 3, 0, 0, 2, 0, 0.1]"
    by simp
  moreover from clamp [THEN conjunct2, THEN conjunct1]
  have "map_sum id (drop 5) (seir_step [- 3, 5, 2, 3, - 1, - 0.5, 2, - 0.2, 0.1]) =
     Inr [0, 2, 0, 0.1]"
    by simp
  moreover from clamp [THEN conjunct2, THEN conjunct2]
  have "map_sum id (drop 3) (lorenz_evol_step [1, 1, 1, - 20, 10, - 5]) = Inr [20, 10, 5]"
    by simp
  ultimately show ?thesis
    by (intro conjI)
qed

section \<open>Cumulative deaths\<close>




section \<open>The observation generator\<close>

lemma prepare_obs_loop_eq:
  "prepare_obs_loop H M k s acc = acc @ map (\<lambda>i. H ((M ^^ i) s)) [0..<k]"
proof (induction k arbitrary: s acc)
  case 0
  then show ?case by simp
next
  case (Suc k)
  have "map (\<lambda>i. H ((M ^^ i) s)) [0..<Suc k] =
        H s # map (\<lambda>i. H ((M ^^ i) (M s))) [0..<k]"
    by (simp add: upt_conv_Cons map_Suc_upt [symmetric] funpow_swap1 del: upt_Suc)
  with Suc.IH [of "M s" "acc @ [H s]"] show ?case
    by simp
qed

text \<open>
  C8: for every starting state \<open>x0\<close>, observation operator \<open>H\<close>, transition function \<open>M\<close>
  and count \<open>N \<ge> 0\<close>, \<open>prepare_obs\<close> returns exactly \<open>N\<close> observations, and the
  observation at position \<open>i\<close> (from 0, in time order) is \<open>H\<close> applied to the \<open>i\<close>-fold
  iterate of \<open>M\<close> on \<open>x0\<close>.
\<close>

theorem prepare_obs_iterates:
  "0 \<le> N \<Longrightarrow>
     int (length (prepare_obs x0 H M N)) = N \<and>
     (\<forall>i<nat N. prepare_obs x0 H M N ! i = H ((M ^^ i) x0))"
  by (simp add: prepare_obs_def prepare_obs_loop_eq)

theorem prepare_obs_iterates_witness:
  "(0::int) \<le> 3 \<and>
   int (length (prepare_obs (5::int) (\<lambda>s. 2 * s) (\<lambda>s. s + 1) 3)) = 3 \<and>
   prepare_obs (5::int) (\<lambda>s. 2 * s) (\<lambda>s. s + 1) 3 = [10, 12, 14]"
  using prepare_obs_iterates [of 3 "5::int" "\<lambda>s. 2 * s" "\<lambda>s. s + 1"]
  by (simp add: prepare_obs_def eval_nat_numeral)

end
